theory Spec2Isabelle
  imports Complex_Main "HOL-Library.Word"
begin

section \<open>The JSON document tree\<close>

text \<open>
  The parser of \<^verbatim>\<open>fastgltf.cpp\<close> walks a DOM built by the simdjson library. The
  DOM is an external collaborator; it is modelled here by what its documented interface
  answers:
  \<^item> a tree of scalars, arrays and objects; an object is the list of its fields in
    document order, and a key lookup returns the first field with that key;
  \<^item> a lookup or a typed read either succeeds with a value or reports an error
    (\<open>None\<close>); a typed read of an error stays an error;
  \<^item> an integer token is read by \<^verbatim>\<open>get_uint64\<close> when it is non-negative and fits 64
    bits, and by \<^verbatim>\<open>get_double\<close> always; a floating-point token is read by
    \<^verbatim>\<open>get_double\<close> only;
  \<^item> \<^verbatim>\<open>result.get(x)\<close> writes \<open>x\<close> on success only.

  The value of a double is carried as a real number; the conversion of an integer token
  to double is taken as exact.
\<close>

datatype json =
    JNull
  | JBool bool
  | JInt int
  | JDouble real
  | JString string
  | JArray "json list"
  | JObject "(string \<times> json) list"

type_synonym size_t = "64 word"
type_synonym json_object = "(string \<times> json) list"

definition at_key :: "json_object \<Rightarrow> string \<Rightarrow> json option" where
  "at_key object key = map_of object key"

fun get_object :: "json option \<Rightarrow> json_object option" where
  "get_object (Some (JObject fields)) = Some fields"
| "get_object _ = None"

fun get_array :: "json option \<Rightarrow> json list option" where
  "get_array (Some (JArray elems)) = Some elems"
| "get_array _ = None"

fun get_string :: "json option \<Rightarrow> string option" where
  "get_string (Some (JString s)) = Some s"
| "get_string _ = None"

fun get_uint64 :: "json option \<Rightarrow> size_t option" where
  "get_uint64 (Some (JInt i)) =
     (if 0 \<le> i \<and> i < 2 ^ 64 then Some (word_of_int i) else None)"
| "get_uint64 _ = None"

fun get_double :: "json option \<Rightarrow> real option" where
  "get_double (Some (JInt i)) = Some (of_int i)"
| "get_double (Some (JDouble d)) = Some d"
| "get_double _ = None"

text \<open>\<^verbatim>\<open>object[key].error() == SUCCESS\<close>: the key exists, whatever its value.\<close>

definition has_key :: "json_object \<Rightarrow> string \<Rightarrow> bool" where
  "has_key object key = (at_key object key \<noteq> None)"

section \<open>The data model\<close>

text \<open>
  The types of \<^verbatim>\<open>fastgltf_types.hpp\<close> and \<^verbatim>\<open>fastgltf_parser.hpp\<close> are declared
  outside the translated file. Their fields are the ones \<^verbatim>\<open>fastgltf.cpp\<close> reads and
  writes; enumerators called \<^verbatim>\<open>None\<close> in the source carry the enumeration's name as a
  prefix here.
\<close>

datatype Error =
    Error_None
  | InvalidPath
  | InvalidJson
  | InvalidOrMissingAssetField
  | InvalidGltf

datatype DataLocation =
    Location_None
  | VectorWithMime
  | FilePathWithByteRange
  | BufferViewWithMime

datatype MimeType =
    Mime_None
  | JPEG
  | PNG
  | KTX2
  | DDS
  | GltfBuffer
  | OctetStream

text \<open>
  Modelled from the spec: the option flags of \<^verbatim>\<open>fastgltf_parser.hpp\<close>, which the
  spec lists as a caller-supplied bitmask of recognised flags. A bitmask is the set of
  its flags and \<^verbatim>\<open>hasBit\<close> is membership.
\<close>

datatype Options =
    DontUseSIMD
  | AllowDouble
  | DontRequireValidAssetMember
  | LoadKTXExtension
  | LoadDDSExtension

definition hasBit :: "Options set \<Rightarrow> Options \<Rightarrow> bool" where
  "hasBit flags flag = (flag \<in> flags)"

text \<open>
  A filesystem path is kept symbolic: a path given by the caller, or the result of
  \<^verbatim>\<open>directory / uri\<close>.
\<close>

datatype fspath =
    FsEmpty
  | FsPath string
  | FsJoin fspath string

record DataSource =
  path :: fspath
  bytes :: "8 word list"
  mimeType :: MimeType
  bufferViewIndex :: size_t

record Buffer =
  byteLength :: size_t
  data :: DataSource
  location :: DataLocation
  name :: string

record Image =
  data :: DataSource
  location :: DataLocation
  name :: string

record Texture =
  imageIndex :: size_t
  fallbackImageIndex :: "size_t option"
  samplerIndex :: "size_t option"
  name :: string

record Node =
  meshIndex :: "size_t option"
  children :: "size_t list"
  hasMatrix :: bool
  matrix :: "real list"
  name :: string

record Scene =
  nodeIndices :: "size_t list"
  name :: string

record Asset =
  defaultScene :: "size_t option"
  buffers :: "Buffer list"
  images :: "Image list"
  textures :: "Texture list"
  nodes :: "Node list"
  scenes :: "Scene list"

text \<open>
  Modelled from the spec: the state of a freshly declared entity. The spec's data model
  gives \<open>None\<close> as the location of a data source before resolution, "unset" for every
  optional index and the empty list for every collection.
\<close>

definition DataSource_init :: DataSource where
  "DataSource_init =
     \<lparr>path = FsEmpty, bytes = [], mimeType = Mime_None, bufferViewIndex = 0\<rparr>"

definition Buffer_init :: Buffer where
  "Buffer_init =
     \<lparr>byteLength = 0, Buffer.data = DataSource_init,
      Buffer.location = Location_None, Buffer.name = ''''\<rparr>"

definition Image_init :: Image where
  "Image_init =
     \<lparr>Image.data = DataSource_init, Image.location = Location_None, Image.name = ''''\<rparr>"

definition Texture_init :: Texture where
  "Texture_init =
     \<lparr>imageIndex = 0, fallbackImageIndex = None, samplerIndex = None,
      Texture.name = ''''\<rparr>"

text \<open>
  The initial content of a node's matrix is whatever the declaration of \<^verbatim>\<open>Node\<close>
  gives it; it is a parameter of the node parser.
\<close>

definition Node_init :: "real list \<Rightarrow> Node" where
  "Node_init matrix0 =
     \<lparr>meshIndex = None, children = [], hasMatrix = False, matrix = matrix0,
      Node.name = ''''\<rparr>"

definition Scene_init :: Scene where
  "Scene_init = \<lparr>nodeIndices = [], Scene.name = ''''\<rparr>"

definition Asset_init :: Asset where
  "Asset_init =
     \<lparr>defaultScene = None, buffers = [], images = [], textures = [], nodes = [],
      scenes = []\<rparr>"

text \<open>
  The class \<^verbatim>\<open>glTF\<close>: the document root, the base directory, the options, the asset
  under construction (an owning pointer, empty once the asset has been moved out) and
  the error code.
\<close>

record glTF =
  root :: json_object
  directory :: fspath
  options :: "Options set"
  parsedAsset :: "Asset option"
  errorCode :: Error

text \<open>
  \<^verbatim>\<open>parsedAsset->field.emplace_back(x)\<close>. Dereferencing the pointer after the
  asset has been moved out is undefined in the source; the model leaves the empty handle
  as it is.
\<close>

definition updateAsset :: "(Asset \<Rightarrow> Asset) \<Rightarrow> glTF \<Rightarrow> glTF" where
  "updateAsset f g = g\<lparr>parsedAsset := map_option f (parsedAsset g)\<rparr>"

section \<open>Retrieving the result\<close>

text \<open>
  \<^verbatim>\<open>getParsedAsset\<close> moves the asset out of the object, so it returns the asset
  together with the object's new state; \<^verbatim>\<open>getParsedAssetPointer\<close> only reads.
\<close>

definition getParsedAsset :: "glTF \<Rightarrow> Asset option \<times> glTF" where
  "getParsedAsset g =
     (if errorCode g \<noteq> Error_None then (None, g)
      else (parsedAsset g, g\<lparr>parsedAsset := None\<rparr>))"

definition getParsedAssetPointer :: "glTF \<Rightarrow> Asset option" where
  "getParsedAssetPointer g =
     (if errorCode g \<noteq> Error_None then None else parsedAsset g)"

section \<open>Iterating over a JSON array\<close>

text \<open>
  The callback of \<^verbatim>\<open>iterateOverArray\<close> is a closure that mutates what it captured
  and returns a flag; here it takes the captured state and returns the flag with the new
  state. The loop stops at the first element the callback refuses; what the callback
  had written until then stays written.
\<close>

fun iterateElements ::
  "(json \<Rightarrow> 's \<Rightarrow> bool \<times> 's) \<Rightarrow> json list \<Rightarrow> 's \<Rightarrow> (bool \<times> Error) \<times> 's" where
  "iterateElements callback [] s = ((True, Error_None), s)"
| "iterateElements callback (field # rest) s =
     (case callback field s of
        (False, s') \<Rightarrow> ((False, InvalidGltf), s')
      | (True, s') \<Rightarrow> iterateElements callback rest s')"

definition iterateOverArray ::
  "json_object \<Rightarrow> string \<Rightarrow> (json \<Rightarrow> 's \<Rightarrow> bool \<times> 's) \<Rightarrow> 's \<Rightarrow> (bool \<times> Error) \<times> 's" where
  "iterateOverArray parent arrayName callback s =
     (case get_array (at_key parent arrayName) of
        None \<Rightarrow> ((False, Error_None), s)
      | Some array \<Rightarrow> iterateElements callback array s)"

section \<open>Resolving a URI\<close>

text \<open>
  \<^verbatim>\<open>std::string_view::find(ch, pos)\<close>: the position of the first \<open>ch\<close> at or after
  \<open>pos\<close>, or \<^verbatim>\<open>npos\<close> (\<open>None\<close>).
\<close>

fun find_first :: "char \<Rightarrow> string \<Rightarrow> nat option" where
  "find_first ch [] = None"
| "find_first ch (c # cs) =
     (if c = ch then Some 0 else map_option Suc (find_first ch cs))"

definition find_from :: "string \<Rightarrow> char \<Rightarrow> nat \<Rightarrow> nat option" where
  "find_from s ch pos =
     (if length s \<le> pos then None
      else map_option (\<lambda>i. pos + i) (find_first ch (drop pos s)))"

text \<open>
  \<^verbatim>\<open>substr(pos, count)\<close> for \<open>pos\<close> within the string, the only case the callers
  below reach.
\<close>

definition substr :: "string \<Rightarrow> nat \<Rightarrow> nat \<Rightarrow> string" where
  "substr s pos count = take count (drop pos s)"

definition getMimeTypeFromString :: "string \<Rightarrow> MimeType" where
  "getMimeTypeFromString mime =
     (if mime = ''image/jpeg'' then JPEG
      else if mime = ''image/png'' then PNG
      else if mime = ''image/ktx2'' then KTX2
      else if mime = ''image/vnd-ms.dds'' then DDS
      else if mime = ''application/gltf-buffer'' then GltfBuffer
      else if mime = ''application/octet-stream'' then OctetStream
      else Mime_None)"

text \<open>
  The two base64 decoders, \<^verbatim>\<open>base64::decode\<close> and \<^verbatim>\<open>base64::fallback_decode\<close>, live
  in \<^verbatim>\<open>base64_decode.hpp\<close>, outside the translated file. They are parameters of
  \<open>decodeUri\<close> and of every parser that resolves a URI: \<open>decode\<close> is the SIMD
  decoder and \<open>fallback_decode\<close> the scalar one.

  Two places of the source compute with \<^verbatim>\<open>size_t\<close> where the mathematical value
  leaves the range:
  \<^item> \<^verbatim>\<open>uri.find(',', index + 1)\<close> with \<open>index = npos\<close>: the sum wraps to \<open>0\<close>;
  \<^item> \<^verbatim>\<open>uri.substr(5, index - 5)\<close> with \<open>index = 4\<close>: the count wraps to the largest
    \<^verbatim>\<open>size_t\<close>, and the substring is the rest of the string.
  A string starting with \<^verbatim>\<open>data\<close> has no \<open>;\<close> before position 4.
\<close>

definition decodeUri ::
  "(string \<Rightarrow> 8 word list) \<Rightarrow> (string \<Rightarrow> 8 word list) \<Rightarrow> glTF \<Rightarrow> string \<Rightarrow>
     Error \<times> DataSource \<times> DataLocation" where
  "decodeUri decode fallback_decode g uri =
     (if substr uri 0 4 = ''data'' then
        (let index = find_from uri (CHR '';'') 0;
             encodingEnd =
               find_from uri (CHR '','') (case index of None \<Rightarrow> 0 | Some i \<Rightarrow> i + 1)
         in case (index, encodingEnd) of
              (Some i, Some e) \<Rightarrow>
                (let encoding = substr uri (i + 1) (e - i - 1)
                 in if encoding \<noteq> ''base64''
                    then (InvalidGltf, DataSource_init, Location_None)
                    else
                      (let encodedData = drop e uri;
                           uriData =
                             (if hasBit (options g) DontUseSIMD
                              then fallback_decode encodedData
                              else decode encodedData);
                           mime = (if i < 5 then drop 5 uri else substr uri 5 (i - 5));
                           source = DataSource_init
                             \<lparr>mimeType := getMimeTypeFromString mime, bytes := uriData\<rparr>
                       in (Error_None, source, VectorWithMime)))
            | _ \<Rightarrow> (InvalidGltf, DataSource_init, Location_None))
      else
        (Error_None, DataSource_init\<lparr>path := FsJoin (directory g) uri\<rparr>,
         FilePathWithByteRange))"

section \<open>Buffers\<close>

text \<open>
  The body of the closure handed to \<^verbatim>\<open>iterateOverArray\<close> by \<^verbatim>\<open>parseBuffers\<close>:
  one element of the \<^verbatim>\<open>buffers\<close> array.
\<close>

definition parseBuffer ::
  "(string \<Rightarrow> 8 word list) \<Rightarrow> (string \<Rightarrow> 8 word list) \<Rightarrow> json \<Rightarrow> glTF \<Rightarrow> bool \<times> glTF" where
  "parseBuffer decode fallback_decode value g =
     (case get_object (Some value) of
        None \<Rightarrow> (False, g)
      | Some bufferObject \<Rightarrow>
          (case get_uint64 (at_key bufferObject ''byteLength'') of
             None \<Rightarrow> (False, g)
           | Some len \<Rightarrow>
               (let buffer = Buffer_init\<lparr>byteLength := len\<rparr>;
                    resolved =
                      (case get_string (at_key bufferObject ''uri'') of
                         None \<Rightarrow> Some buffer
                       | Some uri \<Rightarrow>
                           (case decodeUri decode fallback_decode g uri of
                              (error, source, loc) \<Rightarrow>
                                if error \<noteq> Error_None then None
                                else Some (buffer\<lparr>Buffer.data := source,
                                                   Buffer.location := loc\<rparr>)))
                in case resolved of
                     None \<Rightarrow> (False, g)
                   | Some buffer \<Rightarrow>
                       if Buffer.location buffer = Location_None then (False, g)
                       else
                         (let buffer =
                                (case get_string (at_key bufferObject ''name'') of
                                   None \<Rightarrow> buffer
                                 | Some n \<Rightarrow> buffer\<lparr>Buffer.name := n\<rparr>)
                          in (True,
                              updateAsset (\<lambda>a. a\<lparr>buffers := buffers a @ [buffer]\<rparr>) g)))))"

definition parseBuffers ::
  "(string \<Rightarrow> 8 word list) \<Rightarrow> (string \<Rightarrow> 8 word list) \<Rightarrow> glTF \<Rightarrow> Error \<times> glTF" where
  "parseBuffers decode fallback_decode g =
     (case iterateOverArray (root g) ''buffers'' (parseBuffer decode fallback_decode) g of
        ((foundBuffers, bufferError), g') \<Rightarrow>
          (let g'' = (if \<not> foundBuffers \<and> bufferError \<noteq> Error_None
                      then g'\<lparr>errorCode := bufferError\<rparr> else g')
           in (errorCode g'', g'')))"

section \<open>Images\<close>

text \<open>
  One element of the \<^verbatim>\<open>images\<close> array. The closure has three exits before the
  location test: both \<^verbatim>\<open>uri\<close> and \<^verbatim>\<open>bufferView\<close> declared, a URI that does not
  resolve, and a \<^verbatim>\<open>bufferView\<close> without a \<^verbatim>\<open>mimeType\<close>. The \<^verbatim>\<open>bufferView\<close> branch
  writes the index and the mime type; it does not write the location.
\<close>

definition parseImage ::
  "(string \<Rightarrow> 8 word list) \<Rightarrow> (string \<Rightarrow> 8 word list) \<Rightarrow> json \<Rightarrow> glTF \<Rightarrow> bool \<times> glTF" where
  "parseImage decode fallback_decode value g =
     (case get_object (Some value) of
        None \<Rightarrow> (False, g)
      | Some imageObject \<Rightarrow>
          (case
             (case get_string (at_key imageObject ''uri'') of
                None \<Rightarrow> Some Image_init
              | Some uri \<Rightarrow>
                  if has_key imageObject ''bufferView'' then None
                  else
                    (case decodeUri decode fallback_decode g uri of
                       (error, source, loc) \<Rightarrow>
                         if error \<noteq> Error_None then None
                         else
                           (let img = Image_init\<lparr>Image.data := source,
                                                     Image.location := loc\<rparr>
                            in Some
                                 (case get_string (at_key imageObject ''mimeType'') of
                                    None \<Rightarrow> img
                                  | Some mime \<Rightarrow>
                                      img\<lparr>Image.data := (Image.data img)
                                        \<lparr>mimeType := getMimeTypeFromString mime\<rparr>\<rparr>))))
           of
             None \<Rightarrow> (False, g)
           | Some img \<Rightarrow>
               (case
                  (case get_uint64 (at_key imageObject ''bufferView'') of
                     None \<Rightarrow> Some img
                   | Some bufferViewIndex' \<Rightarrow>
                       (case get_string (at_key imageObject ''mimeType'') of
                          None \<Rightarrow> None
                        | Some mime \<Rightarrow>
                            Some (img\<lparr>Image.data := (Image.data img)
                                    \<lparr>bufferViewIndex := bufferViewIndex',
                                     mimeType := getMimeTypeFromString mime\<rparr>\<rparr>)))
                of
                  None \<Rightarrow> (False, g)
                | Some img \<Rightarrow>
                    if Image.location img = Location_None then (False, g)
                    else
                      (let img =
                             (case get_string (at_key imageObject ''name'') of
                                None \<Rightarrow> img
                              | Some n \<Rightarrow> img\<lparr>Image.name := n\<rparr>)
                       in (True,
                           updateAsset (\<lambda>a. a\<lparr>images := images a @ [img]\<rparr>) g)))))"

definition parseImages ::
  "(string \<Rightarrow> 8 word list) \<Rightarrow> (string \<Rightarrow> 8 word list) \<Rightarrow> glTF \<Rightarrow> Error \<times> glTF" where
  "parseImages decode fallback_decode g =
     (case iterateOverArray (root g) ''images'' (parseImage decode fallback_decode) g of
        ((foundImages, imageError), g') \<Rightarrow>
          (let g'' = (if \<not> foundImages \<and> imageError \<noteq> Error_None
                      then g'\<lparr>errorCode := imageError\<rparr> else g')
           in (errorCode g'', g'')))"

section \<open>Textures and their extensions\<close>

text \<open>
  \<^verbatim>\<open>getImageIndexForExtension\<close> returns the triple
  \<open>(invalidGltf, extensionNotPresent, imageIndex)\<close>.
\<close>

definition getImageIndexForExtension :: "json_object \<Rightarrow> string \<Rightarrow> bool \<times> bool \<times> size_t" where
  "getImageIndexForExtension object extension =
     (case get_object (at_key object extension) of
        None \<Rightarrow> (False, True, 0)
      | Some sourceExtensionObject \<Rightarrow>
          (case get_uint64 (at_key sourceExtensionObject ''source'') of
             None \<Rightarrow> (True, False, 0)
           | Some imageIndex' \<Rightarrow> (False, False, imageIndex')))"

text \<open>
  \<^verbatim>\<open>parseTextureExtensions\<close> writes the texture it was given by reference and returns a
  flag. Each of the two blocks either returns or falls through to what follows it.
\<close>

definition parseTextureExtensions ::
  "Texture \<Rightarrow> json_object \<Rightarrow> Options set \<Rightarrow> bool \<times> Texture" where
  "parseTextureExtensions texture extensions opts =
     (case (if hasBit opts LoadKTXExtension
            then Some (getImageIndexForExtension extensions ''KHR_texture_basisu'')
            else None) of
        Some (True, _, _) \<Rightarrow> (False, texture)
      | Some (False, False, imageIndex') \<Rightarrow> (True, texture\<lparr>imageIndex := imageIndex'\<rparr>)
      | _ \<Rightarrow>
          (case (if hasBit opts LoadDDSExtension
                 then Some (getImageIndexForExtension extensions ''MSFT_texture_dds'')
                 else None) of
             Some (True, _, _) \<Rightarrow> (False, texture)
           | Some (False, False, imageIndex') \<Rightarrow> (True, texture\<lparr>imageIndex := imageIndex'\<rparr>)
           | _ \<Rightarrow> (False, texture)))"

text \<open>\<^verbatim>\<open>std::numeric_limits<size_t>::max()\<close>, the mark of an image index not set.\<close>

definition size_t_max :: size_t where
  "size_t_max = - 1"

definition parseTexture :: "json \<Rightarrow> glTF \<Rightarrow> bool \<times> glTF" where
  "parseTexture value g =
     (case get_object (Some value) of
        None \<Rightarrow> (False, g)
      | Some textureObject \<Rightarrow>
          (let extensionsResult = get_object (at_key textureObject ''extensions'');
               hasExtensions = (extensionsResult \<noteq> None);
               sourceResult = get_uint64 (at_key textureObject ''source'');
               texture =
                 (case sourceResult of
                    None \<Rightarrow> Texture_init\<lparr>imageIndex := size_t_max\<rparr>
                  | Some i \<Rightarrow> Texture_init\<lparr>imageIndex := i\<rparr>)
           in if sourceResult = None \<and> \<not> hasExtensions then (False, g)
              else
                (case
                   (case extensionsResult of
                      None \<Rightarrow> Some texture
                    | Some extensionsObject \<Rightarrow>
                        (let texture =
                               (if imageIndex texture \<noteq> size_t_max
                                then texture\<lparr>fallbackImageIndex := Some (imageIndex texture)\<rparr>
                                else texture)
                         in case parseTextureExtensions texture extensionsObject (options g) of
                              (False, _) \<Rightarrow> None
                            | (True, texture) \<Rightarrow> Some texture))
                 of
                   None \<Rightarrow> (False, g)
                 | Some texture \<Rightarrow>
                     (let texture =
                            (case get_uint64 (at_key textureObject ''sampler'') of
                               None \<Rightarrow> texture
                             | Some samplerIndex' \<Rightarrow>
                                 texture\<lparr>samplerIndex := Some samplerIndex'\<rparr>);
                          texture =
                            (case get_string (at_key textureObject ''name'') of
                               None \<Rightarrow> texture
                             | Some n \<Rightarrow> texture\<lparr>Texture.name := n\<rparr>)
                      in (True,
                          updateAsset (\<lambda>a. a\<lparr>textures := textures a @ [texture]\<rparr>) g)))))"

definition parseTextures :: "glTF \<Rightarrow> Error \<times> glTF" where
  "parseTextures g =
     (case iterateOverArray (root g) ''textures'' parseTexture g of
        ((foundTextures, textureError), g') \<Rightarrow>
          (let g'' = (if \<not> foundTextures \<and> textureError \<noteq> Error_None
                      then g'\<lparr>errorCode := textureError\<rparr> else g')
           in (errorCode g'', g'')))"

section \<open>Nodes\<close>

text \<open>The closure over a node's \<^verbatim>\<open>children\<close> array; it captures the node.\<close>

definition parseNodeChild :: "json \<Rightarrow> Node \<Rightarrow> bool \<times> Node" where
  "parseNodeChild value node =
     (case get_uint64 (Some value) of
        None \<Rightarrow> (False, node)
      | Some index \<Rightarrow> (True, node\<lparr>children := children node @ [index]\<rparr>))"

text \<open>
  The loop over the \<^verbatim>\<open>matrix\<close> array. The source declares the position \<open>i\<close>
  before the loop, writes \<^verbatim>\<open>node.matrix[i]\<close> in the body and has no statement that
  changes \<open>i\<close>; the recursive call passes it on as it is. \<open>to_float\<close> stands for
  \<^verbatim>\<open>static_cast<float>\<close>.
\<close>

fun parseMatrix :: "(real \<Rightarrow> real) \<Rightarrow> nat \<Rightarrow> json list \<Rightarrow> Node \<Rightarrow> Node" where
  "parseMatrix to_float i [] node = node"
| "parseMatrix to_float i (num # rest) node =
     (case get_double (Some num) of
        None \<Rightarrow> node\<lparr>hasMatrix := False\<rparr>
      | Some val \<Rightarrow>
          parseMatrix to_float i rest (node\<lparr>matrix := (matrix node)[i := to_float val]\<rparr>))"

definition parseNode :: "(real \<Rightarrow> real) \<Rightarrow> real list \<Rightarrow> json \<Rightarrow> glTF \<Rightarrow> bool \<times> glTF" where
  "parseNode to_float matrix0 value g =
     (case get_object (Some value) of
        None \<Rightarrow> (False, g)
      | Some nodeObject \<Rightarrow>
          (let node =
                 (case get_uint64 (at_key nodeObject ''mesh'') of
                    None \<Rightarrow> Node_init matrix0
                  | Some meshIndex' \<Rightarrow> (Node_init matrix0)\<lparr>meshIndex := Some meshIndex'\<rparr>)
           in case iterateOverArray nodeObject ''children'' parseNodeChild node of
                ((foundChildren, childrenError), node) \<Rightarrow>
                  if foundChildren \<and> childrenError \<noteq> Error_None then (False, g)
                  else
                    (let node =
                           (case get_array (at_key nodeObject ''matrix'') of
                              None \<Rightarrow> node
                            | Some m \<Rightarrow> parseMatrix to_float 0 m (node\<lparr>hasMatrix := True\<rparr>));
                         node =
                           (case get_string (at_key nodeObject ''name'') of
                              None \<Rightarrow> node
                            | Some n \<Rightarrow> node\<lparr>Node.name := n\<rparr>)
                     in (True, updateAsset (\<lambda>a. a\<lparr>nodes := nodes a @ [node]\<rparr>) g))))"

definition parseNodes :: "(real \<Rightarrow> real) \<Rightarrow> real list \<Rightarrow> glTF \<Rightarrow> Error \<times> glTF" where
  "parseNodes to_float matrix0 g =
     (case iterateOverArray (root g) ''nodes'' (parseNode to_float matrix0) g of
        ((foundNodes, nodeError), g') \<Rightarrow>
          (let g'' = (if \<not> foundNodes \<and> nodeError \<noteq> Error_None
                      then g'\<lparr>errorCode := nodeError\<rparr> else g')
           in (errorCode g'', g'')))"

section \<open>Scenes\<close>

text \<open>The closure over a scene's \<^verbatim>\<open>nodes\<close> array; it captures the list of indices.\<close>

definition parseSceneNode :: "json \<Rightarrow> size_t list \<Rightarrow> bool \<times> size_t list" where
  "parseSceneNode value indices =
     (case get_uint64 (Some value) of
        None \<Rightarrow> (False, indices)
      | Some index \<Rightarrow> (True, indices @ [index]))"

definition parseScene :: "json \<Rightarrow> glTF \<Rightarrow> bool \<times> glTF" where
  "parseScene value g =
     (case get_object (Some value) of
        None \<Rightarrow> (False, g)
      | Some sceneObject \<Rightarrow>
          (let scene =
                 (case get_string (at_key sceneObject ''name'') of
                    None \<Rightarrow> Scene_init
                  | Some n \<Rightarrow> Scene_init\<lparr>Scene.name := n\<rparr>)
           in case iterateOverArray sceneObject ''nodes'' parseSceneNode (nodeIndices scene) of
                ((foundNodes, nodeError), indices) \<Rightarrow>
                  if \<not> foundNodes \<and> nodeError \<noteq> Error_None
                  then (False, g\<lparr>errorCode := nodeError\<rparr>)
                  else
                    (True,
                     updateAsset
                       (\<lambda>a. a\<lparr>scenes := scenes a @ [scene\<lparr>nodeIndices := indices\<rparr>]\<rparr>) g)))"

definition parseScenes :: "glTF \<Rightarrow> Error \<times> glTF" where
  "parseScenes g =
     (let g0 =
            (case get_uint64 (at_key (root g) ''scene'') of
               None \<Rightarrow> g
             | Some defaultScene' \<Rightarrow>
                 updateAsset (\<lambda>a. a\<lparr>defaultScene := Some defaultScene'\<rparr>) g)
      in case iterateOverArray (root g0) ''scenes'' parseScene g0 of
           ((foundScenes, sceneError), g') \<Rightarrow>
             (let g'' = (if \<not> foundScenes \<and> sceneError \<noteq> Error_None
                         then g'\<lparr>errorCode := sceneError\<rparr> else g')
              in (errorCode g'', g'')))"

section \<open>Loading a document\<close>

definition checkAssetField :: "glTF \<Rightarrow> bool \<times> glTF" where
  "checkAssetField g =
     (case get_object (at_key (root g) ''asset'') of
        None \<Rightarrow> (False, g\<lparr>errorCode := InvalidOrMissingAssetField\<rparr>)
      | Some asset \<Rightarrow>
          (case get_string (at_key asset ''version'') of
             None \<Rightarrow> (False, g\<lparr>errorCode := InvalidOrMissingAssetField\<rparr>)
           | Some version \<Rightarrow> (True, g)))"

text \<open>
  \<^verbatim>\<open>Parser::loadGLTF\<close>. The two things it asks of the outside are arguments: whether
  the directory exists (\<^verbatim>\<open>fs::is_directory\<close>) and what the tokenizer made of the
  bytes (\<open>None\<close> when it failed). The document root must be an object. The result is
  the \<^verbatim>\<open>glTF\<close> object, or nothing, with the parser's error code. A new \<^verbatim>\<open>glTF\<close>
  object owns an empty asset and has recorded no error.
\<close>

definition glTF_new :: "json_object \<Rightarrow> fspath \<Rightarrow> Options set \<Rightarrow> glTF" where
  "glTF_new rootObject dir opts =
     \<lparr>root = rootObject, directory = dir, options = opts,
      parsedAsset = Some Asset_init, errorCode = Error_None\<rparr>"

definition loadGLTF ::
  "bool \<Rightarrow> json option \<Rightarrow> fspath \<Rightarrow> Options set \<Rightarrow> glTF option \<times> Error" where
  "loadGLTF is_directory parsed dir opts =
     (if \<not> is_directory then (None, InvalidPath)
      else
        (case get_object parsed of
           None \<Rightarrow> (None, InvalidJson)
         | Some rootObject \<Rightarrow>
             (let gltf = glTF_new rootObject dir opts
              in if \<not> hasBit opts DontRequireValidAssetMember \<and> \<not> fst (checkAssetField gltf)
                 then (None, InvalidOrMissingAssetField)
                 else (Some gltf, Error_None))))"

section \<open>Notions used in the statements\<close>




text \<open>
  The numeric \<^verbatim>\<open>source\<close> an extension supplies: the value under the extension's key
  is an object and its \<^verbatim>\<open>source\<close> field reads as an unsigned integer.
\<close>

definition extensionSource :: "json_object \<Rightarrow> string \<Rightarrow> size_t option" where
  "extensionSource extensions extension =
     (case get_object (at_key extensions extension) of
        None \<Rightarrow> None
      | Some sourceExtensionObject \<Rightarrow> get_uint64 (at_key sourceExtensionObject ''source''))"

text \<open>Some enabled extension supplies a numeric \<^verbatim>\<open>source\<close>.\<close>

definition suppliesSource :: "Options set \<Rightarrow> json_object \<Rightarrow> bool" where
  "suppliesSource opts extensions =
     (hasBit opts LoadKTXExtension \<and>
        extensionSource extensions ''KHR_texture_basisu'' \<noteq> None \<or>
      hasBit opts LoadDDSExtension \<and>
        extensionSource extensions ''MSFT_texture_dds'' \<noteq> None)"

text \<open>An object without the fields of a given key.\<close>

definition remove_key :: "string \<Rightarrow> json_object \<Rightarrow> json_object" where
  "remove_key key object = filter (\<lambda>field. fst field \<noteq> key) object"

text \<open>A texture object with another value under its \<^verbatim>\<open>extensions\<close> key.\<close>

definition replace_extensions :: "json_object \<Rightarrow> json_object \<Rightarrow> json_object" where
  "replace_extensions extensions textureObject =
     map (\<lambda>field. if fst field = ''extensions'' then (fst field, JObject extensions) else field)
       textureObject"

text \<open>
  The document
  \<^verbatim>\<open>{"asset":{"version":"2.0"},"buffers":[{"byteLength":10,"uri":"data:application/octet-stream;base64,AAAAAAAAAAAAAA=="}]}\<close>
  as the tokenizer hands it over.
\<close>

definition minimal_document :: json_object where
  "minimal_document =
     [(''asset'', JObject [(''version'', JString ''2.0'')]),
      (''buffers'', JArray [JObject
         [(''byteLength'', JInt 10),
          (''uri'', JString ''data:application/octet-stream;base64,AAAAAAAAAAAAAA=='')]])]"

text \<open>A decoder that returns no bytes, for the examples in which no URI is decoded.\<close>

definition no_bytes :: "string \<Rightarrow> 8 word list" where
  "no_bytes s = []"

text \<open>
  The caller of the library invokes the parsers one after the other on the same
  \<^verbatim>\<open>glTF\<close> object, in an order of its choice. \<open>parseAll\<close> is such a run over the
  parsers translated here.
\<close>

datatype entity = Buffers | Images | Textures | Nodes | Scenes

fun parseEntity ::
  "(string \<Rightarrow> 8 word list) \<Rightarrow> (string \<Rightarrow> 8 word list) \<Rightarrow> (real \<Rightarrow> real) \<Rightarrow> real list \<Rightarrow>
     entity \<Rightarrow> glTF \<Rightarrow> Error \<times> glTF" where
  "parseEntity decode fallback_decode to_float matrix0 Buffers g =
     parseBuffers decode fallback_decode g"
| "parseEntity decode fallback_decode to_float matrix0 Images g =
     parseImages decode fallback_decode g"
| "parseEntity decode fallback_decode to_float matrix0 Textures g = parseTextures g"
| "parseEntity decode fallback_decode to_float matrix0 Nodes g =
     parseNodes to_float matrix0 g"
| "parseEntity decode fallback_decode to_float matrix0 Scenes g = parseScenes g"

fun parseAll ::
  "(string \<Rightarrow> 8 word list) \<Rightarrow> (string \<Rightarrow> 8 word list) \<Rightarrow> (real \<Rightarrow> real) \<Rightarrow> real list \<Rightarrow>
     entity list \<Rightarrow> glTF \<Rightarrow> glTF" where
  "parseAll decode fallback_decode to_float matrix0 [] g = g"
| "parseAll decode fallback_decode to_float matrix0 (e # es) g =
     parseAll decode fallback_decode to_float matrix0 es
       (snd (parseEntity decode fallback_decode to_float matrix0 e g))"

section \<open>The array iteration\<close>

text \<open>
  \<^verbatim>\<open>iterateOverArray\<close> has three outcomes: the array is absent (not found, no error),
  every element was accepted (found, no error), some element was refused (not found,
  \<open>InvalidGltf\<close>). It never reports "found" together with an error.
\<close>

lemma iterateElements_flags:
  "iterateElements callback xs s = ((found, err), s') \<Longrightarrow>
     (found \<and> err = Error_None) \<or> (\<not> found \<and> err = InvalidGltf)"
  by (induction xs arbitrary: s) (auto split: prod.splits bool.splits)

lemma iterateOverArray_flags:
  "iterateOverArray parent arrayName callback s = ((found, err), s') \<Longrightarrow>
     err = Error_None \<or> (\<not> found \<and> err = InvalidGltf)"
  by (auto simp: iterateOverArray_def split: option.splits dest: iterateElements_flags)

lemma iterateOverArray_absent:
  "get_array (at_key parent arrayName) = None \<Longrightarrow>
     iterateOverArray parent arrayName callback s = ((False, Error_None), s)"
  by (simp add: iterateOverArray_def)

text \<open>
  An element that the callback refuses in every state the loop can be in makes the
  whole iteration fail. The states the loop can be in are described by an invariant of
  the callback.
\<close>

lemma iterateElements_refused:
  assumes "x \<in> set xs" and "P s"
    and step: "\<And>y t. P t \<Longrightarrow> P (snd (callback y t))"
    and refuse: "\<And>t. P t \<Longrightarrow> \<not> fst (callback x t)"
  shows "fst (iterateElements callback xs s) = (False, InvalidGltf)"
  using assms(1,2)
proof (induction xs arbitrary: s)
  case Nil
  then show ?case by simp
next
  case (Cons y ys)
  obtain ok s1 where res: "callback y s = (ok, s1)"
    by (cases "callback y s")
  show ?case
  proof (cases ok)
    case False
    with res show ?thesis by simp
  next
    case True
    with res refuse [OF Cons.prems(2)] have "x \<noteq> y" by auto
    with Cons.prems(1) have mem: "x \<in> set ys" by simp
    from step [OF Cons.prems(2), of y] res have "P s1" by simp
    with Cons.IH mem have "fst (iterateElements callback ys s1) = (False, InvalidGltf)"
      by blast
    with res True show ?thesis by simp
  qed
qed

lemma iterateOverArray_refused:
  assumes "at_key parent arrayName = Some (JArray xs)" and "x \<in> set xs"
    and "\<And>t. \<not> fst (callback x t)"
  shows "fst (iterateOverArray parent arrayName callback s) = (False, InvalidGltf)"
  using assms iterateElements_refused [of x xs "\<lambda>t. True" s callback]
  by (simp add: iterateOverArray_def)

text \<open>What the callback keeps invariant, the iteration keeps invariant.\<close>

lemma iterateElements_invariant:
  assumes "P s" and "\<And>y t. P t \<Longrightarrow> P (snd (callback y t))"
  shows "P (snd (iterateElements callback xs s))"
  using assms(1)
proof (induction xs arbitrary: s)
  case Nil
  then show ?case by simp
next
  case (Cons y ys)
  obtain ok s1 where res: "callback y s = (ok, s1)"
    by (cases "callback y s")
  from assms(2) [OF Cons.prems, of y] res have "P s1" by simp
  with Cons.IH res show ?case by (cases ok) auto
qed

lemma iterateOverArray_invariant:
  assumes "P s" and "\<And>y t. P t \<Longrightarrow> P (snd (callback y t))"
  shows "P (snd (iterateOverArray parent arrayName callback s))"
  using assms iterateElements_invariant [of P s callback]
  by (simp add: iterateOverArray_def split: option.splits)

section \<open>An absent array\<close>

text \<open>
  A parser whose array is missing, or is not an array, changes nothing and returns the
  error code as it was.
\<close>

lemma parseBuffers_absent:
  "get_array (at_key (root g) ''buffers'') = None \<Longrightarrow>
     parseBuffers decode fallback_decode g = (errorCode g, g)"
  by (simp add: parseBuffers_def iterateOverArray_def)

lemma parseImages_absent:
  "get_array (at_key (root g) ''images'') = None \<Longrightarrow>
     parseImages decode fallback_decode g = (errorCode g, g)"
  by (simp add: parseImages_def iterateOverArray_def)

lemma parseTextures_absent:
  "get_array (at_key (root g) ''textures'') = None \<Longrightarrow> parseTextures g = (errorCode g, g)"
  by (simp add: parseTextures_def iterateOverArray_def)

lemma parseNodes_absent:
  "get_array (at_key (root g) ''nodes'') = None \<Longrightarrow>
     parseNodes to_float matrix0 g = (errorCode g, g)"
  by (simp add: parseNodes_def iterateOverArray_def)

lemma parseScenes_absent:
  "get_array (at_key (root g) ''scenes'') = None \<Longrightarrow>
   get_uint64 (at_key (root g) ''scene'') = None \<Longrightarrow> parseScenes g = (errorCode g, g)"
  by (simp add: parseScenes_def iterateOverArray_def)

section \<open>Arrays nested in a node or a scene\<close>

text \<open>
  A scene whose \<^verbatim>\<open>nodes\<close> array holds an entry that is not a number fails the parse:
  \<^verbatim>\<open>parseScenes\<close> tests \<^verbatim>\<open>!foundNodes && nodeError != Error::None\<close>.
\<close>

lemma parseScenes_bad_node_index:
  "fst (parseScenes
     (glTF_new [(''scenes'', JArray [JObject [(''nodes'', JArray [JInt 1, JString ''x''])]])]
        dir opts)) = InvalidGltf"
  by (simp add: parseScenes_def parseScene_def iterateOverArray_def at_key_def
      parseSceneNode_def glTF_new_def updateAsset_def Asset_init_def Scene_init_def)

text \<open>
  \<^verbatim>\<open>parseNodes\<close> tests \<^verbatim>\<open>foundChildren && childrenError != Error::None\<close> instead, which
  no outcome of \<^verbatim>\<open>iterateOverArray\<close> satisfies: every node that is a JSON object is
  accepted.
\<close>

lemma parseNode_object_accepted:
  "\<exists>node. parseNode to_float matrix0 (JObject nodeObject) g =
     (True, updateAsset (\<lambda>a. a\<lparr>nodes := nodes a @ [node]\<rparr>) g)"
proof -
  obtain found err n where it:
    "iterateOverArray nodeObject ''children'' parseNodeChild
       (case get_uint64 (at_key nodeObject ''mesh'') of
          None \<Rightarrow> Node_init matrix0
        | Some meshIndex' \<Rightarrow> (Node_init matrix0)\<lparr>meshIndex := Some meshIndex'\<rparr>) =
     ((found, err), n)"
    by (metis surj_pair)
  from iterateOverArray_flags [OF it] have "\<not> (found \<and> err \<noteq> Error_None)"
    by auto
  with it show ?thesis
    by (auto simp: parseNode_def Let_def)
qed

text \<open>
  C1. The specification asks that a \<^verbatim>\<open>children\<close> array with an entry that is not a number fail
  the whole parse with \<open>InvalidGltf\<close>. On the document
  \<^verbatim>\<open>{"nodes":[{"children":[1,"x"]}]}\<close> the code reports no error and keeps the node with
  the children read before the bad entry.
\<close>

theorem parseNodes_children_not_validated:
  "parseNodes to_float matrix0
     (glTF_new [(''nodes'', JArray [JObject [(''children'', JArray [JInt 1, JString ''x''])]])]
        dir opts) =
   (Error_None,
    (glTF_new [(''nodes'', JArray [JObject [(''children'', JArray [JInt 1, JString ''x''])]])]
       dir opts)
      \<lparr>parsedAsset :=
         Some (Asset_init\<lparr>nodes := [(Node_init matrix0)\<lparr>children := [1]\<rparr>]\<rparr>)\<rparr>)"
  by (simp add: parseNodes_def parseNode_def iterateOverArray_def at_key_def parseNodeChild_def
      glTF_new_def updateAsset_def Asset_init_def Node_init_def)

section \<open>The matrix of a node\<close>


text \<open>The loop writes component \<open>i\<close> and no other, and \<open>i\<close> is \<open>0\<close> throughout.\<close>

lemma parseMatrix_other_components:
  "j \<noteq> i \<Longrightarrow> matrix (parseMatrix to_float i ms node) ! j = matrix node ! j"
  by (induction ms arbitrary: node) (auto split: option.splits)

lemma parseMatrix_length:
  "length (matrix (parseMatrix to_float i ms node)) = length (matrix node)"
  by (induction ms arbitrary: node) (auto split: option.splits)






text \<open>
  C3. The specification asks that the i-th entry of a \<^verbatim>\<open>matrix\<close> array of sixteen numbers
  become the i-th component of the node's matrix. On the array \<open>1, \<dots>, 16\<close> the code
  leaves the matrix as the declaration of the node made it, except for component 0,
  which holds the last entry.
\<close>

theorem parseNodes_matrix_written_at_zero:
  "parseNodes to_float matrix0
     (glTF_new [(''nodes'', JArray [JObject [(''matrix'', JArray
         [JInt 1, JInt 2, JInt 3, JInt 4, JInt 5, JInt 6, JInt 7, JInt 8,
          JInt 9, JInt 10, JInt 11, JInt 12, JInt 13, JInt 14, JInt 15, JInt 16])]])]
        dir opts) =
   (Error_None,
    (glTF_new [(''nodes'', JArray [JObject [(''matrix'', JArray
         [JInt 1, JInt 2, JInt 3, JInt 4, JInt 5, JInt 6, JInt 7, JInt 8,
          JInt 9, JInt 10, JInt 11, JInt 12, JInt 13, JInt 14, JInt 15, JInt 16])]])]
       dir opts)
      \<lparr>parsedAsset := Some (Asset_init\<lparr>nodes :=
          [(Node_init matrix0)\<lparr>hasMatrix := True,
                                 matrix := matrix0[0 := to_float 16]\<rparr>]\<rparr>)\<rparr>)"
  by (simp add: parseNodes_def parseNode_def iterateOverArray_def at_key_def parseNodeChild_def
      glTF_new_def updateAsset_def Asset_init_def Node_init_def)

section \<open>Texture extensions\<close>

lemma parseTexture_options: "options (snd (parseTexture v s)) = options s"
  by (auto simp: parseTexture_def Let_def updateAsset_def
      split: option.splits prod.splits bool.splits)

text \<open>
  When no enabled extension supplies a numeric source, both blocks of
  \<^verbatim>\<open>parseTextureExtensions\<close> either return \<^verbatim>\<open>false\<close> or fall through to the final
  \<^verbatim>\<open>return false\<close>.
\<close>

lemma parseTextureExtensions_no_source:
  "\<not> suppliesSource opts extensions \<Longrightarrow>
     parseTextureExtensions texture extensions opts = (False, texture)"
  by (auto simp: suppliesSource_def extensionSource_def parseTextureExtensions_def
      getImageIndexForExtension_def split: option.splits)

lemma parseTexture_no_source:
  assumes "get_object (at_key textureObject ''extensions'') = Some extensions"
    and "\<not> suppliesSource (options g) extensions"
  shows "parseTexture (JObject textureObject) g = (False, g)"
  using assms
  by (simp add: parseTexture_def Let_def parseTextureExtensions_no_source split: option.splits)

text \<open>
  C4 as the specification states it fails: a texture with the base \<^verbatim>\<open>source\<close> 0 and an empty
  \<^verbatim>\<open>extensions\<close> object, as in \<^verbatim>\<open>{"textures":[{"source":0,"extensions":{}}]}\<close>, is
  refused although its base source is present.
\<close>

theorem base_source_with_extensions_counterexample:
  "fst (parseTextures
     (glTF_new [(''textures'', JArray [JObject [(''source'', JInt 0), (''extensions'', JObject [])]])]
        FsEmpty {LoadKTXExtension, LoadDDSExtension})) = InvalidGltf"
  by (simp add: parseTextures_def parseTexture_def iterateOverArray_def at_key_def
      parseTextureExtensions_def getImageIndexForExtension_def hasBit_def glTF_new_def
      Texture_init_def size_t_max_def)

text \<open>
  C4, amended. For every texture object that has an \<^verbatim>\<open>extensions\<close> object: if no
  enabled extension supplies a numeric \<^verbatim>\<open>source\<close>, the texture is refused and the parse
  of the texture array fails with \<open>InvalidGltf\<close>, whether the base \<^verbatim>\<open>source\<close> field
  was present or not.
\<close>

theorem parseTextures_no_extension_source:
  assumes "at_key (root g) ''textures'' = Some (JArray elems)"
    and "JObject textureObject \<in> set elems"
    and "get_object (at_key textureObject ''extensions'') = Some extensions"
    and "\<not> suppliesSource (options g) extensions"
  shows "parseTexture (JObject textureObject) g = (False, g) \<and>
         fst (parseTextures g) = InvalidGltf \<and>
         errorCode (snd (parseTextures g)) = InvalidGltf"
proof -
  have "fst (iterateElements parseTexture elems g) = (False, InvalidGltf)"
  proof (rule iterateElements_refused [where P = "\<lambda>t. options t = options g"])
    show "JObject textureObject \<in> set elems" by (rule assms(2))
    show "options g = options g" ..
    show "options (snd (parseTexture y t)) = options g" if "options t = options g" for y t
      using that by (simp add: parseTexture_options)
    show "\<not> fst (parseTexture (JObject textureObject) t)" if "options t = options g" for t
      using that assms(3,4) parseTexture_no_source [of textureObject extensions t] by simp
  qed
  then obtain g' where "iterateElements parseTexture elems g = ((False, InvalidGltf), g')"
    by (metis prod.collapse)
  with assms(1) have "parseTextures g = (InvalidGltf, g'\<lparr>errorCode := InvalidGltf\<rparr>)"
    by (simp add: parseTextures_def iterateOverArray_def)
  with parseTexture_no_source [OF assms(3,4)] show ?thesis by simp
qed

text \<open>
  An instance: the base source is 3 and the only extension present is one that is not
  enabled.
\<close>

theorem parseTextures_no_extension_source_witness:
  "at_key (root (glTF_new
       [(''textures'', JArray [JObject [(''source'', JInt 3),
           (''extensions'', JObject [(''MSFT_texture_dds'', JObject [(''source'', JInt 1)])])]])]
       FsEmpty {LoadKTXExtension})) ''textures'' =
     Some (JArray [JObject [(''source'', JInt 3),
           (''extensions'', JObject [(''MSFT_texture_dds'', JObject [(''source'', JInt 1)])])]]) \<and>
   get_object (at_key [(''source'', JInt 3),
           (''extensions'', JObject [(''MSFT_texture_dds'', JObject [(''source'', JInt 1)])])]
       ''extensions'') = Some [(''MSFT_texture_dds'', JObject [(''source'', JInt 1)])] \<and>
   \<not> suppliesSource {LoadKTXExtension} [(''MSFT_texture_dds'', JObject [(''source'', JInt 1)])] \<and>
   fst (parseTextures (glTF_new
       [(''textures'', JArray [JObject [(''source'', JInt 3),
           (''extensions'', JObject [(''MSFT_texture_dds'', JObject [(''source'', JInt 1)])])]])]
       FsEmpty {LoadKTXExtension})) = InvalidGltf"
proof -
  let ?ext = "[(''MSFT_texture_dds'', JObject [(''source'', JInt 1)])]"
  let ?tex = "[(''source'', JInt 3), (''extensions'', JObject ?ext)]"
  let ?g = "glTF_new [(''textures'', JArray [JObject ?tex])] FsEmpty {LoadKTXExtension}"
  have h1: "at_key (root ?g) ''textures'' = Some (JArray [JObject ?tex])"
    by (simp add: glTF_new_def at_key_def)
  have h2: "JObject ?tex \<in> set [JObject ?tex]"
    by simp
  have h3: "get_object (at_key ?tex ''extensions'') = Some ?ext"
    by (simp add: at_key_def)
  have h4: "\<not> suppliesSource (options ?g) ?ext"
    by (simp add: suppliesSource_def extensionSource_def hasBit_def at_key_def glTF_new_def)
  from h4 have h4': "\<not> suppliesSource {LoadKTXExtension} ?ext"
    by (simp add: glTF_new_def)
  show ?thesis
    using h1 h3 h4' parseTextures_no_extension_source [OF h1 h2 h3 h4] by simp
qed

text \<open>
  A value under an extension's key that is not an object reads like a missing key.
\<close>

lemma at_key_replace_extensions:
  "at_key (replace_extensions e obj) k =
     (if k = ''extensions'' then map_option (\<lambda>_. JObject e) (at_key obj k) else at_key obj k)"
  unfolding at_key_def replace_extensions_def
  by (induction obj) auto

lemma at_key_remove_key:
  "at_key (remove_key key object) k = (if k = key then None else at_key object k)"
  unfolding at_key_def remove_key_def
  by (induction object) auto

lemma getImageIndexForExtension_remove_key:
  assumes "at_key extensions extension = Some v" and "get_object (Some v) = None"
  shows "getImageIndexForExtension (remove_key extension extensions) k =
         getImageIndexForExtension extensions k"
  using assms by (simp add: getImageIndexForExtension_def at_key_remove_key)

lemma parseTextureExtensions_remove_key:
  assumes "at_key extensions extension = Some v" and "get_object (Some v) = None"
  shows "parseTextureExtensions texture (remove_key extension extensions) opts =
      parseTextureExtensions texture extensions opts"
  by (simp only: parseTextureExtensions_def getImageIndexForExtension_remove_key [OF assms])

text \<open>
  An enabled extension whose value is an object without a numeric \<^verbatim>\<open>source\<close> is the
  hard failure, here for the extension tried first.
\<close>

lemma parseTextureExtensions_object_without_source:
  assumes "hasBit opts LoadKTXExtension"
    and "get_object (at_key extensions ''KHR_texture_basisu'') = Some sourceExtensionObject"
    and "get_uint64 (at_key sourceExtensionObject ''source'') = None"
  shows "parseTextureExtensions texture extensions opts = (False, texture)"
  using assms by (simp add: parseTextureExtensions_def getImageIndexForExtension_def)

text \<open>
  C5 as the specification states it fails: with both extensions enabled, the texture
  \<^verbatim>\<open>{"source":0,"extensions":{"KHR_texture_basisu":5,"MSFT_texture_dds":{"source":1}}}\<close>
  is accepted, with the image index 1 of the second extension; the first extension,
  whose value is a number, was skipped.
\<close>

theorem nonobject_extension_counterexample:
  "fst (parseTextures
     (glTF_new [(''textures'', JArray [JObject [(''source'', JInt 0),
          (''extensions'', JObject [(''KHR_texture_basisu'', JInt 5),
             (''MSFT_texture_dds'', JObject [(''source'', JInt 1)])])]])]
        FsEmpty {LoadKTXExtension, LoadDDSExtension})) = Error_None \<and>
   map_option (map imageIndex \<circ> textures) (parsedAsset (snd (parseTextures
     (glTF_new [(''textures'', JArray [JObject [(''source'', JInt 0),
          (''extensions'', JObject [(''KHR_texture_basisu'', JInt 5),
             (''MSFT_texture_dds'', JObject [(''source'', JInt 1)])])]])]
        FsEmpty {LoadKTXExtension, LoadDDSExtension})))) = Some [1]"
  by (simp add: parseTextures_def parseTexture_def iterateOverArray_def at_key_def
      parseTextureExtensions_def getImageIndexForExtension_def hasBit_def glTF_new_def
      Texture_init_def size_t_max_def updateAsset_def Asset_init_def)

text \<open>
  C5, amended. For every texture whose \<^verbatim>\<open>extensions\<close> object holds, under an extension
  key, a value that is present but is not a JSON object, the extension is reported as
  not present and not as invalid, and the texture parses exactly as the same texture
  without that key does: the malformed extension is skipped as absent.
\<close>

theorem nonobject_extension_skipped:
  assumes "get_object (at_key textureObject ''extensions'') = Some extensions"
    and "at_key extensions extension = Some v" and "get_object (Some v) = None"
  shows "getImageIndexForExtension extensions extension = (False, True, 0) \<and>
    parseTexture (JObject textureObject) g =
      parseTexture
        (JObject (replace_extensions (remove_key extension extensions) textureObject)) g"
proof
  show "getImageIndexForExtension extensions extension = (False, True, 0)"
    using assms by (simp add: getImageIndexForExtension_def)
  from assms(1) obtain w where "at_key textureObject ''extensions'' = Some w"
    by (cases "at_key textureObject ''extensions''") auto
  with assms(1) have "at_key textureObject ''extensions'' = Some (JObject extensions)"
    by (cases w) auto
  then show "parseTexture (JObject textureObject) g =
      parseTexture
        (JObject (replace_extensions (remove_key extension extensions) textureObject)) g"
    by (simp add: parseTexture_def at_key_replace_extensions Let_def
        parseTextureExtensions_remove_key [OF assms(2,3)]
        cong: option.case_cong prod.case_cong)
qed

theorem nonobject_extension_skipped_witness:
  "get_object (at_key [(''source'', JInt 0),
        (''extensions'', JObject [(''KHR_texture_basisu'', JString ''ktx'')])] ''extensions'') =
     Some [(''KHR_texture_basisu'', JString ''ktx'')] \<and>
   at_key [(''KHR_texture_basisu'', JString ''ktx'')] ''KHR_texture_basisu'' =
     Some (JString ''ktx'') \<and>
   get_object (Some (JString ''ktx'')) = None \<and>
   getImageIndexForExtension [(''KHR_texture_basisu'', JString ''ktx'')] ''KHR_texture_basisu'' =
     (False, True, 0) \<and>
   parseTexture (JObject [(''source'', JInt 0),
        (''extensions'', JObject [(''KHR_texture_basisu'', JString ''ktx'')])])
      (glTF_new [] FsEmpty {LoadKTXExtension}) =
   parseTexture (JObject [(''source'', JInt 0), (''extensions'', JObject [])])
      (glTF_new [] FsEmpty {LoadKTXExtension})"
proof -
  let ?ext = "[(''KHR_texture_basisu'', JString ''ktx'')]"
  let ?tex = "[(''source'', JInt 0), (''extensions'', JObject ?ext)]"
  have h1: "get_object (at_key ?tex ''extensions'') = Some ?ext"
    by (simp add: at_key_def)
  have h2: "at_key ?ext ''KHR_texture_basisu'' = Some (JString ''ktx'')"
    by (simp add: at_key_def)
  have h3: "get_object (Some (JString ''ktx'')) = None"
    by simp
  have r: "replace_extensions (remove_key ''KHR_texture_basisu'' ?ext) ?tex =
      [(''source'', JInt 0), (''extensions'', JObject [])]"
    by (simp add: replace_extensions_def remove_key_def)
  show ?thesis
    using h1 h2 h3
      nonobject_extension_skipped [OF h1 h2 h3, of "glTF_new [] FsEmpty {LoadKTXExtension}"]
    by (simp only: r)
qed

text \<open>
  C6. When both extensions are enabled and both \<^verbatim>\<open>KHR_texture_basisu\<close> and
  \<^verbatim>\<open>MSFT_texture_dds\<close> are objects with a numeric \<^verbatim>\<open>source\<close>, the dispatch stops at the
  basis-universal extension: the texture is accepted with the image index of
  \<^verbatim>\<open>KHR_texture_basisu\<close>, whatever the index of \<^verbatim>\<open>MSFT_texture_dds\<close> is.
\<close>

theorem basisu_before_dds:
  assumes "hasBit (options g) LoadKTXExtension" and "hasBit (options g) LoadDDSExtension"
    and "get_object (at_key textureObject ''extensions'') = Some extensions"
    and "at_key extensions ''KHR_texture_basisu'' = Some (JObject basisu)"
    and "get_uint64 (at_key basisu ''source'') = Some a"
    and "at_key extensions ''MSFT_texture_dds'' = Some (JObject dds)"
    and "get_uint64 (at_key dds ''source'') = Some b"
    and "parsedAsset g = Some asset"
  shows "parseTextureExtensions texture extensions (options g) =
           (True, texture\<lparr>imageIndex := a\<rparr>) \<and>
    fst (parseTexture (JObject textureObject) g) \<and>
    map_option (map imageIndex \<circ> textures)
      (parsedAsset (snd (parseTexture (JObject textureObject) g))) =
      Some (map imageIndex (textures asset) @ [a])"
  using assms
  by (auto simp: parseTexture_def parseTextureExtensions_def getImageIndexForExtension_def
      Let_def updateAsset_def split: option.splits)

theorem basisu_before_dds_witness:
  "hasBit (options (glTF_new [] FsEmpty {LoadKTXExtension, LoadDDSExtension})) LoadKTXExtension \<and>
   hasBit (options (glTF_new [] FsEmpty {LoadKTXExtension, LoadDDSExtension})) LoadDDSExtension \<and>
   parseTextureExtensions Texture_init
     [(''MSFT_texture_dds'', JObject [(''source'', JInt 1)]),
      (''KHR_texture_basisu'', JObject [(''source'', JInt 7)])]
     {LoadKTXExtension, LoadDDSExtension} = (True, Texture_init\<lparr>imageIndex := 7\<rparr>) \<and>
   map_option (map imageIndex \<circ> textures)
     (parsedAsset (snd (parseTexture
        (JObject [(''source'', JInt 0), (''extensions'', JObject
           [(''MSFT_texture_dds'', JObject [(''source'', JInt 1)]),
            (''KHR_texture_basisu'', JObject [(''source'', JInt 7)])])])
        (glTF_new [] FsEmpty {LoadKTXExtension, LoadDDSExtension})))) = Some [7]"
proof -
  let ?ext = "[(''MSFT_texture_dds'', JObject [(''source'', JInt 1)]),
      (''KHR_texture_basisu'', JObject [(''source'', JInt 7)])]"
  let ?tex = "[(''source'', JInt 0), (''extensions'', JObject ?ext)]"
  let ?g = "glTF_new [] FsEmpty {LoadKTXExtension, LoadDDSExtension}"
  have h1: "hasBit (options ?g) LoadKTXExtension"
    by (simp add: hasBit_def glTF_new_def)
  have h2: "hasBit (options ?g) LoadDDSExtension"
    by (simp add: hasBit_def glTF_new_def)
  have h3: "get_object (at_key ?tex ''extensions'') = Some ?ext"
    by (simp add: at_key_def)
  have h4: "at_key ?ext ''KHR_texture_basisu'' = Some (JObject [(''source'', JInt 7)])"
    by (simp add: at_key_def)
  have h5: "get_uint64 (at_key [(''source'', JInt 7)] ''source'') = Some 7"
    by (simp add: at_key_def)
  have h6: "at_key ?ext ''MSFT_texture_dds'' = Some (JObject [(''source'', JInt 1)])"
    by (simp add: at_key_def)
  have h7: "get_uint64 (at_key [(''source'', JInt 1)] ''source'') = Some 1"
    by (simp add: at_key_def)
  have h8: "parsedAsset ?g = Some Asset_init"
    by (simp add: glTF_new_def)
  have o: "options ?g = {LoadKTXExtension, LoadDDSExtension}"
    by (simp add: glTF_new_def)
  show ?thesis
    using h1 h2 basisu_before_dds [OF h1 h2 h3 h4 h5 h6 h7 h8, of Texture_init]
    by (simp add: o Asset_init_def)
qed

section \<open>Data URIs\<close>

text \<open>
  What \<^verbatim>\<open>decodeUri\<close> does with a URI that starts with
  \<^verbatim>\<open>data:application/octet-stream;base64,\<close>, whatever follows. The first \<open>;\<close> is at
  position 29 and the \<open>,\<close> after it at position 36, so \<^verbatim>\<open>uri.substr(encodingEnd)\<close> is
  the rest of the URI from position 36 on: the comma and the payload. That string, not
  the payload alone, is what the decoder is applied to.
\<close>

lemma decodeUri_octet_stream:
  "decodeUri decode fallback_decode g (''data:application/octet-stream;base64,'' @ payload) =
     (Error_None,
      DataSource_init\<lparr>mimeType := OctetStream,
        bytes := (if hasBit (options g) DontUseSIMD
                  then fallback_decode (CHR '','' # payload)
                  else decode (CHR '','' # payload))\<rparr>,
      VectorWithMime)"
  by (simp add: decodeUri_def substr_def find_from_def getMimeTypeFromString_def Let_def)

text \<open>
  For instance, on the URI \<^verbatim>\<open>data:application/octet-stream;base64,AAAA\<close> the bytes
  returned are those the selected decoder gives for the five characters \<^verbatim>\<open>,AAAA\<close>.
  Whether they are the bytes that \<^verbatim>\<open>AAAA\<close> encodes is decided by the decoder, which is
  not part of the translated file.
\<close>

lemma decodeUri_example:
  "decodeUri decode fallback_decode g ''data:application/octet-stream;base64,AAAA'' =
     (Error_None,
      DataSource_init\<lparr>mimeType := OctetStream,
        bytes := (if hasBit (options g) DontUseSIMD then fallback_decode '',AAAA''
                  else decode '',AAAA'')\<rparr>,
      VectorWithMime)"
  using decodeUri_octet_stream [of decode fallback_decode g "''AAAA''"] by simp

text \<open>
  What the translated file decides about the minimal document: loading it succeeds, and
  \<^verbatim>\<open>parseBuffers\<close> records no error and yields one buffer of byte length 10 whose
  location is \<open>VectorWithMime\<close>. Its bytes are what the selected decoder gives for the
  seventeen characters \<^verbatim>\<open>,AAAAAAAAAAAAAA==\<close>; how many bytes that is, the decoder
  decides.
\<close>

lemma minimal_document_buffer:
  "loadGLTF True (Some (JObject minimal_document)) dir opts =
     (Some (glTF_new minimal_document dir opts), Error_None) \<and>
   parseBuffers decode fallback_decode (glTF_new minimal_document dir opts) =
     (Error_None,
      (glTF_new minimal_document dir opts)
        \<lparr>parsedAsset := Some (Asset_init\<lparr>buffers :=
           [\<lparr>byteLength = 10,
             Buffer.data =
               \<lparr>path = FsEmpty,
                bytes = (if hasBit opts DontUseSIMD
                         then fallback_decode '',AAAAAAAAAAAAAA==''
                         else decode '',AAAAAAAAAAAAAA==''),
                mimeType = OctetStream, bufferViewIndex = 0\<rparr>,
             Buffer.location = VectorWithMime, Buffer.name = []\<rparr>]\<rparr>)\<rparr>)"
proof -
  have uri: "decodeUri decode fallback_decode (glTF_new minimal_document dir opts)
      ''data:application/octet-stream;base64,AAAAAAAAAAAAAA=='' =
     (Error_None,
      DataSource_init\<lparr>mimeType := OctetStream,
        bytes := (if hasBit opts DontUseSIMD then fallback_decode '',AAAAAAAAAAAAAA==''
                  else decode '',AAAAAAAAAAAAAA=='')\<rparr>,
      VectorWithMime)"
    using decodeUri_octet_stream
      [of decode fallback_decode "glTF_new minimal_document dir opts" "''AAAAAAAAAAAAAA==''"]
    by (simp add: glTF_new_def)
  have load: "loadGLTF True (Some (JObject minimal_document)) dir opts =
     (Some (glTF_new minimal_document dir opts), Error_None)"
    by (simp add: loadGLTF_def checkAssetField_def glTF_new_def minimal_document_def at_key_def)
  have buffer: "parseBuffer decode fallback_decode
      (JObject [(''byteLength'', JInt 10),
                (''uri'', JString ''data:application/octet-stream;base64,AAAAAAAAAAAAAA=='')])
      (glTF_new minimal_document dir opts) =
     (True, (glTF_new minimal_document dir opts)
        \<lparr>parsedAsset := Some (Asset_init\<lparr>buffers :=
           [\<lparr>byteLength = 10,
             Buffer.data =
               \<lparr>path = FsEmpty,
                bytes = (if hasBit opts DontUseSIMD
                         then fallback_decode '',AAAAAAAAAAAAAA==''
                         else decode '',AAAAAAAAAAAAAA==''),
                mimeType = OctetStream, bufferViewIndex = 0\<rparr>,
             Buffer.location = VectorWithMime, Buffer.name = []\<rparr>]\<rparr>)\<rparr>)"
    by (simp add: parseBuffer_def uri at_key_def Buffer_init_def DataSource_init_def
        updateAsset_def; simp add: glTF_new_def Asset_init_def)
  have root: "at_key (root (glTF_new minimal_document dir opts)) ''buffers'' =
      Some (JArray [JObject [(''byteLength'', JInt 10),
        (''uri'', JString ''data:application/octet-stream;base64,AAAAAAAAAAAAAA=='')]])"
    by (simp add: glTF_new_def minimal_document_def at_key_def)
  have "parseBuffers decode fallback_decode (glTF_new minimal_document dir opts) =
     (Error_None,
      (glTF_new minimal_document dir opts)
        \<lparr>parsedAsset := Some (Asset_init\<lparr>buffers :=
           [\<lparr>byteLength = 10,
             Buffer.data =
               \<lparr>path = FsEmpty,
                bytes = (if hasBit opts DontUseSIMD
                         then fallback_decode '',AAAAAAAAAAAAAA==''
                         else decode '',AAAAAAAAAAAAAA==''),
                mimeType = OctetStream, bufferViewIndex = 0\<rparr>,
             Buffer.location = VectorWithMime, Buffer.name = []\<rparr>]\<rparr>)\<rparr>)"
    by (simp add: parseBuffers_def iterateOverArray_def root buffer;
        simp add: glTF_new_def)
  with load show ?thesis by simp
qed

section \<open>Image sources\<close>

text \<open>
  The only image objects the closure of \<^verbatim>\<open>parseImages\<close> accepts have a \<^verbatim>\<open>uri\<close> that
  is a string and no \<^verbatim>\<open>bufferView\<close> key: without a URI the location stays \<open>None\<close>,
  also in the \<^verbatim>\<open>bufferView\<close> branch, which does not set it.
\<close>

lemma parseImage_accepted:
  assumes "fst (parseImage decode fallback_decode (JObject imageObject) g)"
  shows "get_string (at_key imageObject ''uri'') \<noteq> None \<and> \<not> has_key imageObject ''bufferView''"
  using assms
  by (auto simp: parseImage_def Let_def Image_init_def has_key_def
      split: option.splits prod.splits if_splits)

lemma parseImages_refused:
  assumes "at_key (root g) ''images'' = Some (JArray elems)"
    and "x \<in> set elems"
    and "\<And>t. \<not> fst (parseImage decode fallback_decode x t)"
  shows "fst (parseImages decode fallback_decode g) = InvalidGltf \<and>
         errorCode (snd (parseImages decode fallback_decode g)) = InvalidGltf"
proof -
  obtain found err g' where it:
    "iterateOverArray (root g) ''images'' (parseImage decode fallback_decode) g =
       ((found, err), g')"
    by (metis surj_pair)
  with iterateOverArray_refused [OF assms(1,2), of "parseImage decode fallback_decode" g]
    assms(3)
  have "found = False" "err = InvalidGltf" by auto
  with it show ?thesis by (simp add: parseImages_def)
qed

text \<open>
  C9. An image object with both \<^verbatim>\<open>uri\<close> and \<^verbatim>\<open>bufferView\<close>, one with neither, and
  one with a \<^verbatim>\<open>bufferView\<close> but no \<^verbatim>\<open>mimeType\<close> string are each refused, and the parse
  of the image array then fails with \<open>InvalidGltf\<close>. A field counts as set when its
  key is present.
\<close>

theorem parseImages_rejects:
  assumes "at_key (root g) ''images'' = Some (JArray elems)"
    and "JObject imageObject \<in> set elems"
    and "has_key imageObject ''uri'' \<and> has_key imageObject ''bufferView'' \<or>
         \<not> has_key imageObject ''uri'' \<and> \<not> has_key imageObject ''bufferView'' \<or>
         has_key imageObject ''bufferView'' \<and>
           get_string (at_key imageObject ''mimeType'') = None"
  shows "fst (parseImages decode fallback_decode g) = InvalidGltf \<and>
         errorCode (snd (parseImages decode fallback_decode g)) = InvalidGltf"
proof (rule parseImages_refused [OF assms(1,2)])
  fix t
  show "\<not> fst (parseImage decode fallback_decode (JObject imageObject) t)"
  proof
    assume "fst (parseImage decode fallback_decode (JObject imageObject) t)"
    from parseImage_accepted [OF this]
    have "get_string (at_key imageObject ''uri'') \<noteq> None"
      and "\<not> has_key imageObject ''bufferView''"
      by simp_all
    moreover from this(1) have "has_key imageObject ''uri''"
      by (cases "at_key imageObject ''uri''") (auto simp: has_key_def)
    ultimately show False using assms(3) by blast
  qed
qed

text \<open>One image for each of the three cases.\<close>

theorem parseImages_rejects_witness:
  "fst (parseImages no_bytes no_bytes
     (glTF_new [(''images'', JArray [JObject
         [(''uri'', JString ''a.png''), (''bufferView'', JInt 0),
          (''mimeType'', JString ''image/png'')]])] FsEmpty {})) = InvalidGltf \<and>
   fst (parseImages no_bytes no_bytes
     (glTF_new [(''images'', JArray [JObject [(''name'', JString ''empty'')]])] FsEmpty {})) =
     InvalidGltf \<and>
   fst (parseImages no_bytes no_bytes
     (glTF_new [(''images'', JArray [JObject [(''bufferView'', JInt 0)]])] FsEmpty {})) =
     InvalidGltf"
proof -
  let ?both = "[(''uri'', JString ''a.png''), (''bufferView'', JInt 0),
          (''mimeType'', JString ''image/png'')]"
  let ?neither = "[(''name'', JString ''empty'')]"
  let ?nomime = "[(''bufferView'', JInt 0)]"
  have r: "at_key (root (glTF_new [(''images'', JArray [JObject obj])] FsEmpty {})) ''images'' =
      Some (JArray [JObject obj])" for obj
    by (simp add: glTF_new_def at_key_def)
  have m: "JObject obj \<in> set [JObject obj]" for obj
    by simp
  have c1: "has_key ?both ''uri'' \<and> has_key ?both ''bufferView'' \<or>
         \<not> has_key ?both ''uri'' \<and> \<not> has_key ?both ''bufferView'' \<or>
         has_key ?both ''bufferView'' \<and> get_string (at_key ?both ''mimeType'') = None"
    by (simp add: has_key_def at_key_def)
  have c2: "has_key ?neither ''uri'' \<and> has_key ?neither ''bufferView'' \<or>
         \<not> has_key ?neither ''uri'' \<and> \<not> has_key ?neither ''bufferView'' \<or>
         has_key ?neither ''bufferView'' \<and> get_string (at_key ?neither ''mimeType'') = None"
    by (simp add: has_key_def at_key_def)
  have c3: "has_key ?nomime ''uri'' \<and> has_key ?nomime ''bufferView'' \<or>
         \<not> has_key ?nomime ''uri'' \<and> \<not> has_key ?nomime ''bufferView'' \<or>
         has_key ?nomime ''bufferView'' \<and> get_string (at_key ?nomime ''mimeType'') = None"
    by (simp add: has_key_def at_key_def)
  show ?thesis
    using parseImages_rejects [OF r m c1, of no_bytes no_bytes]
      parseImages_rejects [OF r m c2, of no_bytes no_bytes]
      parseImages_rejects [OF r m c3, of no_bytes no_bytes]
    by simp
qed

section \<open>Retrieving the result after an error\<close>

text \<open>
  Every parser returns the error code it leaves in the object, and no parser resets an
  error code that is already set.
\<close>

lemma parseBuffer_errorCode:
  "errorCode (snd (parseBuffer decode fallback_decode v t)) = errorCode t"
  by (auto simp: parseBuffer_def Let_def updateAsset_def split: option.splits prod.splits)

lemma parseImage_errorCode:
  "errorCode (snd (parseImage decode fallback_decode v t)) = errorCode t"
  by (auto simp: parseImage_def Let_def updateAsset_def split: option.splits prod.splits)

lemma parseTexture_errorCode: "errorCode (snd (parseTexture v t)) = errorCode t"
  by (auto simp: parseTexture_def Let_def updateAsset_def
      split: option.splits prod.splits bool.splits)

lemma parseNode_errorCode: "errorCode (snd (parseNode to_float matrix0 v t)) = errorCode t"
  by (auto simp: parseNode_def Let_def updateAsset_def split: option.splits prod.splits)

lemma parseScene_errorCode:
  "errorCode t \<noteq> Error_None \<Longrightarrow> errorCode (snd (parseScene v t)) \<noteq> Error_None"
  by (auto simp: parseScene_def Let_def updateAsset_def split: option.splits prod.splits)

lemma parseBuffers_sticky:
  "fst (parseBuffers decode fallback_decode g) =
     errorCode (snd (parseBuffers decode fallback_decode g)) \<and>
   (errorCode g \<noteq> Error_None \<longrightarrow>
      errorCode (snd (parseBuffers decode fallback_decode g)) \<noteq> Error_None)"
  using iterateOverArray_invariant [of "\<lambda>t. errorCode t \<noteq> Error_None" g
      "parseBuffer decode fallback_decode" "root g" "''buffers''"]
  by (auto simp: parseBuffers_def Let_def parseBuffer_errorCode split: prod.splits)

lemma parseImages_sticky:
  "fst (parseImages decode fallback_decode g) =
     errorCode (snd (parseImages decode fallback_decode g)) \<and>
   (errorCode g \<noteq> Error_None \<longrightarrow>
      errorCode (snd (parseImages decode fallback_decode g)) \<noteq> Error_None)"
  using iterateOverArray_invariant [of "\<lambda>t. errorCode t \<noteq> Error_None" g
      "parseImage decode fallback_decode" "root g" "''images''"]
  by (auto simp: parseImages_def Let_def parseImage_errorCode split: prod.splits)

lemma parseTextures_sticky:
  "fst (parseTextures g) = errorCode (snd (parseTextures g)) \<and>
   (errorCode g \<noteq> Error_None \<longrightarrow> errorCode (snd (parseTextures g)) \<noteq> Error_None)"
  using iterateOverArray_invariant [of "\<lambda>t. errorCode t \<noteq> Error_None" g
      parseTexture "root g" "''textures''"]
  by (auto simp: parseTextures_def Let_def parseTexture_errorCode split: prod.splits)

lemma parseNodes_sticky:
  "fst (parseNodes to_float matrix0 g) = errorCode (snd (parseNodes to_float matrix0 g)) \<and>
   (errorCode g \<noteq> Error_None \<longrightarrow>
      errorCode (snd (parseNodes to_float matrix0 g)) \<noteq> Error_None)"
  using iterateOverArray_invariant [of "\<lambda>t. errorCode t \<noteq> Error_None" g
      "parseNode to_float matrix0" "root g" "''nodes''"]
  by (auto simp: parseNodes_def Let_def parseNode_errorCode split: prod.splits)

lemma parseScenes_sticky:
  "fst (parseScenes g) = errorCode (snd (parseScenes g)) \<and>
   (errorCode g \<noteq> Error_None \<longrightarrow> errorCode (snd (parseScenes g)) \<noteq> Error_None)"
proof -
  let ?g0 = "case get_uint64 (at_key (root g) ''scene'') of
               None \<Rightarrow> g
             | Some defaultScene' \<Rightarrow>
                 updateAsset (\<lambda>a. a\<lparr>defaultScene := Some defaultScene'\<rparr>) g"
  have e: "errorCode ?g0 = errorCode g"
    by (simp add: updateAsset_def split: option.splits)
  show ?thesis
    using iterateOverArray_invariant [of "\<lambda>t. errorCode t \<noteq> Error_None" ?g0
      parseScene "root ?g0" "''scenes''"] e
    by (auto simp: parseScenes_def Let_def parseScene_errorCode split: prod.splits)
qed

lemma parseEntity_sticky:
  "fst (parseEntity decode fallback_decode to_float matrix0 e g) =
     errorCode (snd (parseEntity decode fallback_decode to_float matrix0 e g)) \<and>
   (errorCode g \<noteq> Error_None \<longrightarrow>
      errorCode (snd (parseEntity decode fallback_decode to_float matrix0 e g)) \<noteq> Error_None)"
  by (cases e)
    (simp_all add: parseBuffers_sticky parseImages_sticky parseTextures_sticky
      parseNodes_sticky parseScenes_sticky)

lemma parseAll_sticky:
  "errorCode g \<noteq> Error_None \<Longrightarrow>
     errorCode (parseAll decode fallback_decode to_float matrix0 es g) \<noteq> Error_None"
  by (induction es arbitrary: g) (simp_all add: parseEntity_sticky)

text \<open>
  So an error reported by one parser of a run is still recorded at the end of the run,
  whatever parsers the caller invokes afterwards, and the retrieval at the end returns
  nothing.
\<close>

lemma no_asset_after_failed_parser:
  assumes "fst (parseEntity decode fallback_decode to_float matrix0 e g) \<noteq> Error_None"
  shows "fst (getParsedAsset (parseAll decode fallback_decode to_float matrix0 (e # es) g)) =
           None \<and>
         getParsedAssetPointer (parseAll decode fallback_decode to_float matrix0 (e # es) g) =
           None"
proof -
  from assms
  have "errorCode (snd (parseEntity decode fallback_decode to_float matrix0 e g)) \<noteq> Error_None"
    by (simp add: parseEntity_sticky)
  then have "errorCode (parseAll decode fallback_decode to_float matrix0 (e # es) g) \<noteq>
      Error_None"
    by (simp add: parseAll_sticky)
  then show ?thesis
    by (simp add: getParsedAsset_def getParsedAssetPointer_def)
qed


text \<open>
  C10. Once a fatal error has been recorded (the error code is not \<open>None\<close>), both ways
  of retrieving the result return nothing; an asset is handed out only when the error
  code is \<open>None\<close>, by \<^verbatim>\<open>getParsedAsset\<close> and by \<^verbatim>\<open>getParsedAssetPointer\<close> alike.
\<close>

theorem getParsedAsset_none_on_error:
  "(errorCode g \<noteq> Error_None \<longrightarrow>
      fst (getParsedAsset g) = None \<and> getParsedAssetPointer g = None) \<and>
   (fst (getParsedAsset g) = Some a \<longrightarrow> errorCode g = Error_None) \<and>
   (getParsedAssetPointer g = Some a \<longrightarrow> errorCode g = Error_None)"
  by (simp add: getParsedAsset_def getParsedAssetPointer_def)

theorem getParsedAsset_none_on_error_witness:
  "errorCode (\<lparr>root = [], directory = FsEmpty, options = {},
               parsedAsset = Some Asset_init, errorCode = InvalidGltf\<rparr>) \<noteq> Error_None \<and>
   fst (getParsedAsset \<lparr>root = [], directory = FsEmpty, options = {},
          parsedAsset = Some Asset_init, errorCode = InvalidGltf\<rparr>) = None \<and>
   getParsedAssetPointer \<lparr>root = [], directory = FsEmpty, options = {},
          parsedAsset = Some Asset_init, errorCode = InvalidGltf\<rparr> = None \<and>
   fst (getParsedAsset \<lparr>root = [], directory = FsEmpty, options = {},
          parsedAsset = Some Asset_init, errorCode = Error_None\<rparr>) = Some Asset_init \<and>
   getParsedAssetPointer \<lparr>root = [], directory = FsEmpty, options = {},
          parsedAsset = Some Asset_init, errorCode = Error_None\<rparr> = Some Asset_init \<and>
   errorCode (\<lparr>root = [], directory = FsEmpty, options = {},
               parsedAsset = Some Asset_init, errorCode = Error_None\<rparr>) = Error_None"
proof -
  let ?failed = "\<lparr>root = [], directory = FsEmpty, options = {},
          parsedAsset = Some Asset_init, errorCode = InvalidGltf\<rparr>"
  let ?parsed = "\<lparr>root = [], directory = FsEmpty, options = {},
          parsedAsset = Some Asset_init, errorCode = Error_None\<rparr>"
  have h1: "errorCode ?failed \<noteq> Error_None"
    by simp
  from getParsedAsset_none_on_error [of ?failed Asset_init] h1
  have r1: "fst (getParsedAsset ?failed) = None \<and> getParsedAssetPointer ?failed = None"
    by blast
  have h2: "fst (getParsedAsset ?parsed) = Some Asset_init"
    by (simp add: getParsedAsset_def)
  have h3: "getParsedAssetPointer ?parsed = Some Asset_init"
    by (simp add: getParsedAssetPointer_def)
  from getParsedAsset_none_on_error [of ?parsed Asset_init] h2
  have r2: "errorCode ?parsed = Error_None"
    by blast
  from h1 r1 h2 h3 r2 show ?thesis
    by blast
qed

end
